theory Spec2Isabelle
  imports Main
begin

section \<open>The bootstrap script of the compute instance\<close>

text \<open>
  The stack constructor of \<^verbatim>\<open>lib/websocket-api-stack.ts\<close> builds the start-up script
  with one call of \<^verbatim>\<open>userData.addCommands\<close>. Every argument is one line of the script.
  The model is the list of these lines in the order of the source
  (\<^verbatim>\<open>UserData.forLinux()\<close> starts without commands). The only line that is
  not a fixed literal is the template literal setting \<^verbatim>\<open>ASPNETCORE_ENVIRONMENT\<close>, which
  compares \<^verbatim>\<open>envName\<close> with \<^verbatim>\<open>'prod'\<close>.
\<close>

definition userData :: "string \<Rightarrow> string list" where
  \<open>userData envName =
    [''#!/bin/bash'',
     ''set -e'',
     ''exec > >(tee /var/log/user-data.log)'',
     ''exec 2>&1'',
     '''',
     ''echo "Starting WebSocket API setup at $(date)"'',
     '''',
     ''# Update system'',
     ''apt-get update -y'',
     ''apt-get upgrade -y'',
     '''',
     ''# Install dependencies'',
     ''apt-get install -y awscli unzip nginx curl'',
     '''',
     ''# Install .NET 8 Runtime'',
     ''wget https://dot.net/v1/dotnet-install.sh -O /tmp/dotnet-install.sh'',
     ''chmod +x /tmp/dotnet-install.sh'',
     ''/tmp/dotnet-install.sh --channel 8.0 --install-dir /usr/share/dotnet'',
     ''ln -sf /usr/share/dotnet/dotnet /usr/bin/dotnet'',
     '''',
     ''# Verify .NET installation'',
     ''dotnet --version'',
     '''',
     ''# Create application directory'',
     ''mkdir -p /var/www/websocketapi'',
     ''chown -R www-data:www-data /var/www/websocketapi'',
     '''',
     ''# Create systemd service'',
     ''cat > /etc/systemd/system/websocketapi.service <<'EOF'' @ [CHR 0x27],
     ''[Unit]'',
     ''Description=WebSocket API .NET Application'',
     ''After=network.target'',
     '''',
     ''[Service]'',
     ''Type=notify'',
     ''WorkingDirectory=/var/www/websocketapi'',
     ''ExecStart=/usr/bin/dotnet /var/www/websocketapi/WebSocketApi.dll'',
     ''Restart=always'',
     ''RestartSec=10'',
     ''KillSignal=SIGINT'',
     ''SyslogIdentifier=websocketapi'',
     ''User=www-data'',
     ''Environment=ASPNETCORE_ENVIRONMENT=''
        @ (if envName = ''prod'' then ''Production'' else ''Development''),
     ''Environment=ASPNETCORE_URLS=http://0.0.0.0:5000'',
     '''',
     ''[Install]'',
     ''WantedBy=multi-user.target'',
     ''EOF'',
     '''',
     ''systemctl daemon-reload'',
     ''systemctl enable websocketapi'',
     '''',
     ''# Configure Nginx as reverse proxy'',
     ''cat > /etc/nginx/sites-available/websocketapi <<'EOF'' @ [CHR 0x27],
     ''upstream websocketapi {'',
     ''    server 127.0.0.1:5000;'',
     ''}'',
     '''',
     ''server {'',
     ''    listen 80 default_server;'',
     ''    server_name _;'',
     '''',
     ''    location / {'',
     ''        proxy_pass http://websocketapi;'',
     ''        proxy_http_version 1.1;'',
     ''        proxy_set_header Upgrade $http_upgrade;'',
     ''        proxy_set_header Connection "upgrade";'',
     ''        proxy_set_header Host $host;'',
     ''        proxy_set_header X-Real-IP $remote_addr;'',
     ''        proxy_set_header X-Forwarded-For $proxy_add_x_forwarded_for;'',
     ''        proxy_set_header X-Forwarded-Proto $scheme;'',
     ''        proxy_cache_bypass $http_upgrade;'',
     ''        proxy_read_timeout 300s;'',
     ''        proxy_connect_timeout 75s;'',
     ''    }'',
     '''',
     ''    location /ws {'',
     ''        proxy_pass http://websocketapi/ws;'',
     ''        proxy_http_version 1.1;'',
     ''        proxy_set_header Upgrade $http_upgrade;'',
     ''        proxy_set_header Connection "upgrade";'',
     ''        proxy_set_header Host $host;'',
     ''        proxy_set_header X-Real-IP $remote_addr;'',
     ''        proxy_set_header X-Forwarded-For $proxy_add_x_forwarded_for;'',
     ''        proxy_set_header X-Forwarded-Proto $scheme;'',
     ''        proxy_read_timeout 86400;'',
     ''    }'',
     '''',
     ''    location /health {'',
     ''        proxy_pass http://websocketapi/health;'',
     ''        access_log off;'',
     ''    }'',
     ''}'',
     ''EOF'',
     '''',
     ''ln -sf /etc/nginx/sites-available/websocketapi /etc/nginx/sites-enabled/'',
     ''rm -f /etc/nginx/sites-enabled/default'',
     '''',
     ''nginx -t'',
     ''systemctl restart nginx'',
     '''',
     ''echo "WebSocket API setup completed at $(date)"'']\<close>

subsection \<open>Reading the generated files back\<close>

text \<open>
  The script writes two files through shell here-documents with the quoted delimiter
  \<^verbatim>\<open>EOF\<close>: the text of a file is every line after the \<^verbatim>\<open>cat > path <<'EOF'\<close> line up
  to the next line that is exactly \<^verbatim>\<open>EOF\<close>. The functions below read a script the way
  the shell, systemd and nginx do, far enough to state what the generated files say.
\<close>

definition heredoc :: "string \<Rightarrow> string list \<Rightarrow> string list" where
  "heredoc path script =
     takeWhile (\<lambda>l. l \<noteq> ''EOF'')
       (drop 1 (dropWhile (\<lambda>l. l \<noteq> ''cat > '' @ path @ '' <<'EOF'' @ [CHR 0x27]) script))"

definition starts_with :: "string \<Rightarrow> string \<Rightarrow> bool" where
  "starts_with p l = (take (length p) l = p)"

definition lstrip :: "string \<Rightarrow> string" where
  "lstrip l = dropWhile (\<lambda>c. c = CHR '' '') l"

text \<open>The values of every \<^verbatim>\<open>key=value\<close> line of a systemd unit file, in order.\<close>

definition unit_values :: "string \<Rightarrow> string list \<Rightarrow> string list" where
  "unit_values key unit =
     map (drop (length key + 1)) (filter (starts_with (key @ ''='')) unit)"

text \<open>The paths of the \<^verbatim>\<open>location path {\<close> lines of an nginx configuration, in order.\<close>

definition location_path :: "string \<Rightarrow> string option" where
  "location_path l =
     (let s = lstrip l in
      if starts_with ''location '' s \<and> drop (length s - 2) s = '' {''
      then Some (take (length s - 11) (drop 9 s)) else None)"

definition locations :: "string list \<Rightarrow> string list" where
  "locations conf = List.map_filter location_path conf"

text \<open>The lines of the block of one location: up to the first closing brace.\<close>

definition location_block :: "string \<Rightarrow> string list \<Rightarrow> string list" where
  "location_block path conf =
     takeWhile (\<lambda>l. lstrip l \<noteq> ''}'')
       (drop 1 (dropWhile (\<lambda>l. location_path l \<noteq> Some path) conf))"

text \<open>The arguments of every \<^verbatim>\<open>name args;\<close> directive of a block, in order.\<close>

definition directive :: "string \<Rightarrow> string list \<Rightarrow> string list" where
  "directive name block =
     map (\<lambda>l. takeWhile (\<lambda>c. c \<noteq> CHR '';'') (drop (length name + 1) (lstrip l)))
       (filter (\<lambda>l. starts_with (name @ '' '') (lstrip l)) block)"

definition systemd_unit :: "string \<Rightarrow> string list" where
  "systemd_unit envName = heredoc ''/etc/systemd/system/websocketapi.service'' (userData envName)"

definition nginx_site :: "string \<Rightarrow> string list" where
  "nginx_site envName = heredoc ''/etc/nginx/sites-available/websocketapi'' (userData envName)"

section \<open>Values of the construct library\<close>

text \<open>
  The constructor describes resources by calling the classes of the construct library
  (\<^verbatim>\<open>aws-cdk-lib\<close>). The library is not part of the repository; a construct is modelled
  as the record of the properties the source passes to it, under the identifier the source
  gives it, and a method that changes a construct after its creation
  (\<^verbatim>\<open>addIngressRule\<close>, \<^verbatim>\<open>grantRead\<close>, \<^verbatim>\<open>setAttribute\<close>, \<^verbatim>\<open>addListener\<close>,
  \<^verbatim>\<open>Tags.of(..).add\<close>) returns the changed record. A construct refers to another one by
  its identifier.
\<close>

datatype Duration = Duration_seconds nat | Duration_hours nat | Duration_days nat

fun toSeconds :: "Duration \<Rightarrow> nat" where
  "toSeconds (Duration_seconds n) = n"
| "toSeconds (Duration_hours n) = n * 3600"
| "toSeconds (Duration_days n) = n * 86400"

datatype SubnetType = PUBLIC | PRIVATE_WITH_EGRESS | PRIVATE_ISOLATED

datatype InstanceClass = T2 | T3 | M5

datatype InstanceSize = MICRO | SMALL | MEDIUM | LARGE

datatype InstanceType = InstanceType_of InstanceClass InstanceSize

datatype ApplicationProtocol = ApplicationProtocol_HTTP | ApplicationProtocol_HTTPS

datatype Protocol = Protocol_HTTP | Protocol_HTTPS | Protocol_TCP

datatype OperatingSystemType = LINUX | WINDOWS

datatype EbsDeviceVolumeType = GP2 | GP3

datatype RemovalPolicy = RETAIN | DESTROY | SNAPSHOT

datatype BucketEncryption = S3_MANAGED | KMS_MANAGED | UNENCRYPTED

datatype BlockPublicAccess = BLOCK_ALL | BLOCK_ACLS

text \<open>
  A string of the graph is either known when the graph is composed or a reference that the
  provisioning engine resolves later (\<^verbatim>\<open>alb.loadBalancerDnsName\<close>, \<^verbatim>\<open>this.account\<close> of
  a stack without a fixed account): a list of literal pieces and references.
\<close>

datatype tok = Lit string | Attr string string

text \<open>The source of an inbound rule: an address range or a security group.\<close>

datatype Peer = Peer_anyIpv4 | Peer_anyIpv6 | Peer_ipv4 string | Peer_securityGroup string

datatype Port = Port_tcp nat

record SubnetConfiguration =
  cidrMask :: nat
  subnet_name :: string
  subnetType :: SubnetType

record VpcProps =
  vpcName :: string
  maxAzs :: nat
  natGateways :: nat
  subnetConfiguration :: "SubnetConfiguration list"

text \<open>A network is built by the stack (\<^verbatim>\<open>new ec2.Vpc\<close>) or imported by its identifier.\<close>

datatype IVpc = Vpc string VpcProps | ImportedVpc string string

fun vpc_ref :: "IVpc \<Rightarrow> string" where
  "vpc_ref (Vpc cid _) = cid"
| "vpc_ref (ImportedVpc cid _) = cid"

record LifecycleRule =
  rule_id :: string
  rule_enabled :: bool
  expiration :: Duration

record Bucket =
  bucket_id :: string
  bucketName :: "tok list"
  removalPolicy :: RemovalPolicy
  encryption :: BucketEncryption
  blockPublicAccess :: BlockPublicAccess
  versioned :: bool
  lifecycleRules :: "LifecycleRule list"

datatype ManagedPolicy = fromAwsManagedPolicyName string

text \<open>
  The grant methods of a bucket (\<^verbatim>\<open>grantRead\<close>, \<^verbatim>\<open>grantWrite\<close>, \<^verbatim>\<open>grantPut\<close>,
  \<^verbatim>\<open>grantDelete\<close>, \<^verbatim>\<open>grantReadWrite\<close>) add a statement to the policy of the grantee.
\<close>

datatype BucketAccess = READ | WRITE | PUT | DELETE | READ_WRITE

record Role =
  role_id :: string
  roleName :: string
  assumedBy :: string
  managedPolicies :: "ManagedPolicy list"
  role_description :: string
  bucketGrants :: "(BucketAccess \<times> string) list"

definition grantRead :: "Bucket \<Rightarrow> Role \<Rightarrow> Role" where
  "grantRead b r = r\<lparr>bucketGrants := bucketGrants r @ [(READ, bucket_id b)]\<rparr>"

record IngressRule =
  rule_peer :: Peer
  rule_connection :: Port
  rule_description :: string

record SecurityGroup =
  sg_id :: string
  sg_vpc :: string
  securityGroupName :: string
  sg_description :: string
  allowAllOutbound :: bool
  ingressRules :: "IngressRule list"

definition addIngressRule :: "SecurityGroup \<Rightarrow> Peer \<Rightarrow> Port \<Rightarrow> string \<Rightarrow> SecurityGroup" where
  "addIngressRule sg p c d =
     sg\<lparr>ingressRules := ingressRules sg
          @ [\<lparr>rule_peer = p, rule_connection = c, rule_description = d\<rparr>]\<rparr>"

record MachineImage =
  ssmParameter :: string
  os :: OperatingSystemType

record BlockDevice =
  deviceName :: string
  volumeSize :: nat
  volumeType :: EbsDeviceVolumeType
  encrypted :: bool

record Instance =
  instance_id :: string
  instance_vpc :: string
  instance_subnetType :: SubnetType
  instance_instanceType :: InstanceType
  machineImage :: MachineImage
  instance_securityGroup :: string
  instance_role :: string
  instance_userData :: "string list"
  blockDevices :: "BlockDevice list"
  instance_tags :: "(string \<times> string) list"

definition addTag :: "Instance \<Rightarrow> string \<Rightarrow> string \<Rightarrow> Instance" where
  "addTag i k v = i\<lparr>instance_tags := instance_tags i @ [(k, v)]\<rparr>"

record HealthCheck =
  hc_enabled :: bool
  hc_path :: string
  hc_protocol :: Protocol
  hc_interval :: Duration
  hc_timeout :: Duration
  healthyThresholdCount :: nat
  unhealthyThresholdCount :: nat
  healthyHttpCodes :: string

record InstanceTarget =
  target_instance :: string
  target_port :: nat

record ApplicationTargetGroup =
  tg_id :: string
  tg_vpc :: string
  tg_port :: nat
  tg_protocol :: ApplicationProtocol
  targetGroupName :: string
  targets :: "InstanceTarget list"
  healthCheck :: HealthCheck
  deregistrationDelay :: Duration
  stickinessCookieDuration :: "Duration option"
  attributes :: "string \<rightharpoonup> string"

definition setAttribute :: "ApplicationTargetGroup \<Rightarrow> string \<Rightarrow> string \<Rightarrow> ApplicationTargetGroup" where
  "setAttribute tg k v = tg\<lparr>attributes := (attributes tg)(k \<mapsto> v)\<rparr>"

record Listener =
  listener_id :: string
  listener_port :: nat
  listener_protocol :: ApplicationProtocol
  defaultTargetGroups :: "string list"

record ApplicationLoadBalancer =
  alb_id :: string
  alb_vpc :: string
  internetFacing :: bool
  loadBalancerName :: string
  alb_securityGroup :: string
  alb_subnetType :: SubnetType
  listeners :: "Listener list"

definition addListener :: "ApplicationLoadBalancer \<Rightarrow> Listener \<Rightarrow> ApplicationLoadBalancer" where
  "addListener lb l = lb\<lparr>listeners := listeners lb @ [l]\<rparr>"

record CfnOutput =
  output_id :: string
  output_value :: "tok list"
  output_description :: string
  exportName :: "string option"

section \<open>The stack constructor\<close>

record Environment =
  account :: "string option"
  region :: "string option"

record WebSocketApiStackProps =
  stackName :: "string option"
  description :: "string option"
  env :: "Environment option"
  tags :: "(string \<times> string) list"
  environmentName :: "string option"
  instanceType :: "InstanceType option"
  createVpc :: "bool option"
  vpcId :: "string option"

text \<open>
  \<^verbatim>\<open>a || b\<close> on an optional string: \<^verbatim>\<open>undefined\<close> and the empty string are falsy.
\<close>

definition or_default :: "string option \<Rightarrow> string \<Rightarrow> string" where
  "or_default v d = (case v of None \<Rightarrow> d | Some s \<Rightarrow> if s = [] then d else s)"

text \<open>\<^verbatim>\<open>const envName = props?.environmentName || 'dev'\<close>\<close>

definition envName_of :: "WebSocketApiStackProps option \<Rightarrow> string" where
  "envName_of props = or_default (Option.bind props environmentName) ''dev''"

text \<open>
  The condition \<^verbatim>\<open>props?.createVpc === false && props.vpcId\<close>: it holds, with the
  identifier it found, when \<^verbatim>\<open>createVpc\<close> is the boolean \<^verbatim>\<open>false\<close> and \<^verbatim>\<open>vpcId\<close>
  is a non-empty string.
\<close>

definition existing_vpcId :: "WebSocketApiStackProps option \<Rightarrow> string option" where
  "existing_vpcId props =
     (if Option.bind props createVpc = Some False
      then (case Option.bind props vpcId of
              None \<Rightarrow> None
            | Some v \<Rightarrow> if v = [] then None else Some v)
      else None)"

text \<open>
  The constructor raises in three ways. A requested network is not found. The construct
  library refuses a second construct with an identifier that a construct of the same
  scope already has. The construct library refuses the properties of a construct (its
  validation of names and values).
\<close>

datatype error =
  VpcLookupFailed string
| DuplicateConstructId string
| InvalidProperties string

text \<open>
  Modelled from the spec: \<^verbatim>\<open>ec2.Vpc.fromLookup\<close> is a function of the construct library,
  which resolves a network by its external identifier. What the external lookup finds is a
  parameter (\<open>vpc_exists\<close>); a supplied network is resolved by identifier with no validation
  beyond the existence lookup, and a lookup failure is fatal: no graph is produced.
\<close>

definition fromLookup :: "(string \<Rightarrow> bool) \<Rightarrow> string \<Rightarrow> string \<Rightarrow> error + IVpc" where
  "fromLookup vpc_exists cid vid =
     (if vpc_exists vid then Inr (ImportedVpc cid vid) else Inl (VpcLookupFailed vid))"

definition vpc :: "(string \<Rightarrow> bool) \<Rightarrow> WebSocketApiStackProps option \<Rightarrow> string \<Rightarrow> error + IVpc" where
  "vpc vpc_exists props envName =
     (case existing_vpcId props of
        Some vid \<Rightarrow> fromLookup vpc_exists ''ExistingVPC'' vid
      | None \<Rightarrow>
          Inr (Vpc ''WebSocketVPC''
            \<lparr>vpcName = ''websocket-api-vpc-'' @ envName,
             maxAzs = 2,
             natGateways = 1,
             subnetConfiguration =
               [\<lparr>cidrMask = 24, subnet_name = ''Public'', subnetType = PUBLIC\<rparr>,
                \<lparr>cidrMask = 24, subnet_name = ''Private'', subnetType = PRIVATE_WITH_EGRESS\<rparr>]\<rparr>))"

text \<open>
  \<^verbatim>\<open>this.account\<close>: the account of the environment the stack was given, and the
  deploy-time account reference when it was given none.
\<close>

definition stack_account :: "WebSocketApiStackProps option \<Rightarrow> tok" where
  "stack_account props =
     (case Option.bind (Option.bind props env) account of
        Some a \<Rightarrow> Lit a
      | None \<Rightarrow> Attr ''AWS'' ''AccountId'')"

definition deploymentBucket :: "string \<Rightarrow> tok \<Rightarrow> Bucket" where
  "deploymentBucket envName acct =
     \<lparr>bucket_id = ''DeploymentBucket'',
      bucketName = [Lit (''websocket-api-deployments-'' @ envName @ ''-''), acct],
      removalPolicy = RETAIN,
      encryption = S3_MANAGED,
      blockPublicAccess = BLOCK_ALL,
      versioned = False,
      lifecycleRules =
        [\<lparr>rule_id = ''DeleteOldDeployments'', rule_enabled = True,
          expiration = Duration_days 30\<rparr>]\<rparr>"

definition ec2Role :: "string \<Rightarrow> Bucket \<Rightarrow> Role" where
  "ec2Role envName bucket =
     grantRead bucket
       \<lparr>role_id = ''EC2Role'',
        roleName = ''websocket-api-ec2-role-'' @ envName,
        assumedBy = ''ec2.amazonaws.com'',
        managedPolicies =
          [fromAwsManagedPolicyName ''AmazonSSMManagedInstanceCore'',
           fromAwsManagedPolicyName ''CloudWatchAgentServerPolicy''],
        role_description = ''IAM role for WebSocket API EC2 instance'',
        bucketGrants = []\<rparr>"

definition albSecurityGroup :: "IVpc \<Rightarrow> string \<Rightarrow> SecurityGroup" where
  "albSecurityGroup v envName =
     addIngressRule
       (addIngressRule
          \<lparr>sg_id = ''ALBSecurityGroup'',
           sg_vpc = vpc_ref v,
           securityGroupName = ''websocket-api-alb-sg-'' @ envName,
           sg_description = ''Security group for WebSocket API ALB'',
           allowAllOutbound = True,
           ingressRules = []\<rparr>
          Peer_anyIpv4 (Port_tcp 80) ''Allow HTTP traffic from anywhere'')
       Peer_anyIpv4 (Port_tcp 443) ''Allow HTTPS traffic from anywhere''"

definition ec2SecurityGroup :: "IVpc \<Rightarrow> string \<Rightarrow> SecurityGroup \<Rightarrow> SecurityGroup" where
  "ec2SecurityGroup v envName albSg =
     addIngressRule
       (addIngressRule
          \<lparr>sg_id = ''EC2SecurityGroup'',
           sg_vpc = vpc_ref v,
           securityGroupName = ''websocket-api-ec2-sg-'' @ envName,
           sg_description = ''Security group for WebSocket API EC2 instance'',
           allowAllOutbound = True,
           ingressRules = []\<rparr>
          (Peer_securityGroup (sg_id albSg)) (Port_tcp 80) ''Allow traffic from ALB'')
       (Peer_securityGroup (sg_id albSg)) (Port_tcp 5000)
       ''Allow traffic from ALB to app port''"

definition instance' ::
  "IVpc \<Rightarrow> InstanceType \<Rightarrow> SecurityGroup \<Rightarrow> Role \<Rightarrow> string list \<Rightarrow> string \<Rightarrow> Instance" where
  "instance' v ty sg role ud envName =
     addTag
       (addTag
          (addTag
             \<lparr>instance_id = ''WebSocketApiInstance'',
              instance_vpc = vpc_ref v,
              instance_subnetType = PRIVATE_WITH_EGRESS,
              instance_instanceType = ty,
              machineImage =
                \<lparr>ssmParameter =
                   ''/aws/service/canonical/ubuntu/server/22.04/stable/current/amd64/hvm/ebs-gp2/ami-id'',
                 os = LINUX\<rparr>,
              instance_securityGroup = sg_id sg,
              instance_role = role_id role,
              instance_userData = ud,
              blockDevices =
                [\<lparr>deviceName = ''/dev/sda1'', volumeSize = 20, volumeType = GP3,
                  encrypted = True\<rparr>],
              instance_tags = []\<rparr>
             ''Name'' ''WebSocketApi'')
          ''Environment'' envName)
       ''ManagedBy'' ''CDK''"

definition targetGroup :: "IVpc \<Rightarrow> string \<Rightarrow> Instance \<Rightarrow> ApplicationTargetGroup" where
  "targetGroup v envName inst =
     setAttribute
       (setAttribute
          \<lparr>tg_id = ''TargetGroup'',
           tg_vpc = vpc_ref v,
           tg_port = 80,
           tg_protocol = ApplicationProtocol_HTTP,
           targetGroupName = ''websocket-api-tg-'' @ envName,
           targets = [\<lparr>target_instance = instance_id inst, target_port = 80\<rparr>],
           healthCheck =
             \<lparr>hc_enabled = True,
              hc_path = ''/health'',
              hc_protocol = Protocol_HTTP,
              hc_interval = Duration_seconds 30,
              hc_timeout = Duration_seconds 5,
              healthyThresholdCount = 2,
              unhealthyThresholdCount = 3,
              healthyHttpCodes = ''200''\<rparr>,
           deregistrationDelay = Duration_seconds 30,
           stickinessCookieDuration = Some (Duration_hours 1),
           attributes = Map.empty\<rparr>
          ''stickiness.enabled'' ''true'')
       ''stickiness.type'' ''lb_cookie''"

definition alb :: "IVpc \<Rightarrow> string \<Rightarrow> SecurityGroup \<Rightarrow> ApplicationTargetGroup \<Rightarrow> ApplicationLoadBalancer" where
  "alb v envName albSg tg =
     addListener
       \<lparr>alb_id = ''WebSocketALB'',
        alb_vpc = vpc_ref v,
        internetFacing = True,
        loadBalancerName = ''websocket-api-alb-'' @ envName,
        alb_securityGroup = sg_id albSg,
        alb_subnetType = PUBLIC,
        listeners = []\<rparr>
       \<lparr>listener_id = ''HttpListener'',
        listener_port = 80,
        listener_protocol = ApplicationProtocol_HTTP,
        defaultTargetGroups = [tg_id tg]\<rparr>"

text \<open>Values that the provisioning engine resolves after the resources exist.\<close>

definition loadBalancerDnsName :: "ApplicationLoadBalancer \<Rightarrow> tok list" where
  "loadBalancerDnsName lb = [Attr (alb_id lb) ''loadBalancerDnsName'']"

definition instanceId_of :: "Instance \<Rightarrow> tok list" where
  "instanceId_of inst = [Attr (instance_id inst) ''instanceId'']"

fun vpcId_of :: "IVpc \<Rightarrow> tok list" where
  "vpcId_of (Vpc cid _) = [Attr cid ''vpcId'']"
| "vpcId_of (ImportedVpc _ vid) = [Lit vid]"

definition outputs ::
  "IVpc \<Rightarrow> string \<Rightarrow> ApplicationLoadBalancer \<Rightarrow> Bucket \<Rightarrow> Instance \<Rightarrow> CfnOutput list" where
  "outputs v envName lb bucket inst =
     [\<lparr>output_id = ''ALBDnsName'',
       output_value = loadBalancerDnsName lb,
       output_description = ''Application Load Balancer DNS Name'',
       exportName = Some (''WebSocketApi-ALB-DNS-'' @ envName)\<rparr>,
      \<lparr>output_id = ''WebSocketURL'',
       output_value = [Lit ''ws://''] @ loadBalancerDnsName lb @ [Lit ''/ws''],
       output_description = ''WebSocket Connection URL'',
       exportName = Some (''WebSocketApi-WS-URL-'' @ envName)\<rparr>,
      \<lparr>output_id = ''HealthCheckURL'',
       output_value = [Lit ''http://''] @ loadBalancerDnsName lb @ [Lit ''/health''],
       output_description = ''Health Check URL'',
       exportName = None\<rparr>,
      \<lparr>output_id = ''DeploymentBucket'',
       output_value = bucketName bucket,
       output_description = ''S3 Deployment Bucket Name'',
       exportName = Some (''WebSocketApi-Bucket-'' @ envName)\<rparr>,
      \<lparr>output_id = ''InstanceId'',
       output_value = instanceId_of inst,
       output_description = ''EC2 Instance ID'',
       exportName = None\<rparr>,
      \<lparr>output_id = ''InstanceTag'',
       output_value = [Lit ''WebSocketApi''],
       output_description = ''EC2 Instance Name Tag (for GitHub Actions)'',
       exportName = Some (''WebSocketApi-InstanceTag-'' @ envName)\<rparr>,
      \<lparr>output_id = ''VpcId'',
       output_value = vpcId_of v,
       output_description = ''VPC ID'',
       exportName = None\<rparr>]"

text \<open>
  The composed graph: the stack with the properties it was created with, every construct
  the constructor declares in it, and the three public fields it stores.
\<close>

record Stack =
  stack_id :: string
  stack_stackName :: "string option"
  stack_description :: "string option"
  stack_env :: "Environment option"
  stack_tags :: "(string \<times> string) list"
  stack_vpc :: IVpc
  stack_deploymentBucket :: Bucket
  stack_ec2Role :: Role
  stack_albSecurityGroup :: SecurityGroup
  stack_ec2SecurityGroup :: SecurityGroup
  stack_instance :: Instance
  stack_alb :: ApplicationLoadBalancer
  stack_targetGroup :: ApplicationTargetGroup
  stack_outputs :: "CfnOutput list"
  albDnsName :: "tok list"
  deploymentBucketName :: "tok list"
  instanceId :: "tok list"

text \<open>
  \<^verbatim>\<open>new X(this, id, props)\<close> adds a construct to the stack. The construct library
  first compares \<open>id\<close> with the identifiers of the constructs the stack already holds, and
  raises when one of them has it; then it validates the properties. The validation is
  code of the library: whether it accepts what the source passes to the construct \<open>id\<close>
  is the parameter \<open>accepts\<close>. \<open>children\<close> are the identifiers the stack holds.
\<close>

definition addChild :: "(string \<Rightarrow> bool) \<Rightarrow> string \<Rightarrow> string list \<Rightarrow> error + string list" where
  "addChild accepts c children =
     (if c \<in> set children then Inl (DuplicateConstructId c)
      else if \<not> accepts c then Inl (InvalidProperties c)
      else Inr (children @ [c]))"

fun addChildren :: "(string \<Rightarrow> bool) \<Rightarrow> string list \<Rightarrow> string list \<Rightarrow> error + string list" where
  "addChildren accepts [] children = Inr children"
| "addChildren accepts (c # cs) children =
     (case addChild accepts c children of
        Inl e \<Rightarrow> Inl e
      | Inr children' \<Rightarrow> addChildren accepts cs children')"

text \<open>
  The constructor. \<^verbatim>\<open>super(scope, id, props)\<close> creates the stack itself, then the
  network is resolved or built, then the constructs are added to the stack in the order
  of the source: the network, the bucket, the role, the two security groups, the
  instance, the load balancer, the target group and the seven outputs (the listener is
  added to the load balancer, not to the stack). The first raise ends the construction.
  The output of line 376 is created with the identifier \<^verbatim>\<open>DeploymentBucket\<close>, which the
  bucket of line 82 has.
\<close>

definition WebSocketApiStack ::
  "(string \<Rightarrow> bool) \<Rightarrow> (string \<Rightarrow> bool) \<Rightarrow> string \<Rightarrow> WebSocketApiStackProps option
     \<Rightarrow> error + Stack" where
  "WebSocketApiStack vpc_exists accepts cid props =
     (if \<not> accepts cid then Inl (InvalidProperties cid)
      else
       (let envName = envName_of props;
            ty = (case Option.bind props instanceType of
                    Some t \<Rightarrow> t
                  | None \<Rightarrow> InstanceType_of T3 SMALL)
        in case vpc vpc_exists props envName of
             Inl e \<Rightarrow> Inl e
           | Inr v \<Rightarrow>
               (let bucket = deploymentBucket envName (stack_account props);
                    role = ec2Role envName bucket;
                    albSg = albSecurityGroup v envName;
                    ec2Sg = ec2SecurityGroup v envName albSg;
                    inst = instance' v ty ec2Sg role (userData envName) envName;
                    tg = targetGroup v envName inst;
                    lb = alb v envName albSg tg;
                    outs = outputs v envName lb bucket inst
                in case addChildren accepts
                          ([vpc_ref v, bucket_id bucket, role_id role, sg_id albSg,
                            sg_id ec2Sg, instance_id inst, alb_id lb, tg_id tg]
                           @ map output_id outs) [] of
                     Inl e \<Rightarrow> Inl e
                   | Inr children \<Rightarrow>
                       Inr
                         \<lparr>stack_id = cid,
                          stack_stackName = Option.bind props stackName,
                          stack_description = Option.bind props description,
                          stack_env = Option.bind props env,
                          stack_tags = (case props of None \<Rightarrow> [] | Some p \<Rightarrow> tags p),
                          stack_vpc = v,
                          stack_deploymentBucket = bucket,
                          stack_ec2Role = role,
                          stack_albSecurityGroup = albSg,
                          stack_ec2SecurityGroup = ec2Sg,
                          stack_instance = inst,
                          stack_alb = lb,
                          stack_targetGroup = tg,
                          stack_outputs = outs,
                          albDnsName = loadBalancerDnsName lb,
                          deploymentBucketName = bucketName bucket,
                          instanceId = instanceId_of inst\<rparr>)))"

section \<open>The entry point\<close>

text \<open>
  \<^verbatim>\<open>bin/app.ts\<close> reads the environment name from the context of the application and the
  account and region from the variables of the process, and creates one stack. It passes
  neither \<^verbatim>\<open>instanceType\<close> nor \<^verbatim>\<open>createVpc\<close> nor \<^verbatim>\<open>vpcId\<close>. The context and the
  process variables are maps from names to strings. \<^verbatim>\<open>app.synth()\<close> comes after the
  constructor, so a raise of the constructor ends the run before it.
\<close>

definition app ::
  "(string \<Rightarrow> bool) \<Rightarrow> (string \<Rightarrow> bool) \<Rightarrow> (string \<rightharpoonup> string)
     \<Rightarrow> (string \<rightharpoonup> string) \<Rightarrow> error + Stack" where
  "app vpc_exists accepts ctx process_env =
     (let envName = or_default (ctx ''environment'') ''dev'';
          awsAccount = process_env ''CDK_DEFAULT_ACCOUNT'';
          awsRegion = or_default (process_env ''CDK_DEFAULT_REGION'') ''us-east-1''
      in WebSocketApiStack vpc_exists accepts (''WebSocketApiStack-'' @ envName)
           (Some
             \<lparr>stackName = Some (''websocket-api-'' @ envName),
              description =
                Some (''WebSocket API infrastructure for '' @ envName @ '' environment''),
              env = Some \<lparr>account = awsAccount, region = Some awsRegion\<rparr>,
              tags =
                [(''Environment'', envName), (''Project'', ''WebSocketApi''),
                 (''ManagedBy'', ''CDK'')],
              environmentName = Some envName,
              instanceType = None,
              createVpc = None,
              vpcId = None\<rparr>))"

section \<open>Observations on a role and on a start-up script\<close>

text \<open>
  The capabilities of a role: its managed policies, then the accesses to buckets it was
  granted, in the order of their declaration.
\<close>

datatype Capability = Managed ManagedPolicy | BucketGrant BucketAccess string

definition capabilities :: "Role \<Rightarrow> Capability list" where
  "capabilities r =
     map Managed (managedPolicies r) @ map (\<lambda>(a, b). BucketGrant a b) (bucketGrants r)"

text \<open>
  The fixed part of the host configuration, read back from a start-up script \<open>ud\<close>: the
  script writes and enables the unit \<^verbatim>\<open>websocketapi\<close>, the unit starts the service
  binary, sets the execution mode to \<open>mode\<close> and the listen address to
  \<^verbatim>\<open>0.0.0.0:5000\<close>, the nginx site has the three routes, only the health route switches
  the access log off, and the output of the script goes to the log file.
\<close>

definition host_contract :: "string \<Rightarrow> string list \<Rightarrow> bool" where
  "host_contract mode ud =
     (let unit = heredoc ''/etc/systemd/system/websocketapi.service'' ud;
          site = heredoc ''/etc/nginx/sites-available/websocketapi'' ud
      in unit \<noteq> []
       \<and> ''systemctl enable websocketapi'' \<in> set ud
       \<and> unit_values ''ExecStart'' unit
           = [''/usr/bin/dotnet /var/www/websocketapi/WebSocketApi.dll'']
       \<and> unit_values ''Environment'' unit
           = [''ASPNETCORE_ENVIRONMENT='' @ mode, ''ASPNETCORE_URLS=http://0.0.0.0:5000'']
       \<and> locations site = [''/'', ''/ws'', ''/health'']
       \<and> directive ''access_log'' (location_block ''/health'' site) = [''off'']
       \<and> directive ''access_log'' (location_block ''/'' site) = []
       \<and> directive ''access_log'' (location_block ''/ws'' site) = []
       \<and> ''exec > >(tee /var/log/user-data.log)'' \<in> set ud)"

section \<open>Properties of the constructor and of the constructs it declares\<close>

subsection \<open>The constructor never returns a graph\<close>

lemma addChild_Inr:
  assumes "addChild accepts c children = Inr children'"
  shows "c \<notin> set children \<and> children' = children @ [c]"
  using assms by (auto simp: addChild_def split: if_splits)

lemma addChildren_Inr:
  assumes "addChildren accepts cs children = Inr children'"
  shows "distinct cs \<and> set cs \<inter> set children = {}"
  using assms
proof (induction cs arbitrary: children)
  case Nil
  then show ?case by simp
next
  case (Cons c cs)
  from Cons.prems obtain mid where
    d: "addChild accepts c children = Inr mid"
    and r: "addChildren accepts cs mid = Inr children'"
    by (auto split: sum.splits)
  from addChild_Inr [OF d] have c: "c \<notin> set children" and m: "mid = children @ [c]"
    by simp_all
  from Cons.IH [OF r] have "distinct cs" and "set cs \<inter> set mid = {}"
    by simp_all
  with c m show ?case by auto
qed

lemma outputs_ids:
  "map output_id (outputs v envName lb bucket inst) =
     [''ALBDnsName'', ''WebSocketURL'', ''HealthCheckURL'', ''DeploymentBucket'',
      ''InstanceId'', ''InstanceTag'', ''VpcId'']"
  by (simp add: outputs_def)

lemma deploymentBucket_id: "bucket_id (deploymentBucket envName acct) = ''DeploymentBucket''"
  by (simp add: deploymentBucket_def)

lemma stack_ids_not_distinct:
  "\<not> distinct ([a, bucket_id (deploymentBucket envName acct), b, c, d, e, f, g]
        @ map output_id (outputs v envName lb bucket inst))"
  by (simp add: outputs_ids deploymentBucket_id)

text \<open>
  Whatever the input, the lookup and the validation of the library: the bucket and the
  fourth output have the same identifier, so no run of the constructor gets past the
  fourth output.
\<close>

lemma WebSocketApiStack_raises: "WebSocketApiStack vpc_exists accepts cid props \<noteq> Inr s"
proof
  assume "WebSocketApiStack vpc_exists accepts cid props = Inr s"
  then obtain a b c d e f g v lb bucket inst children where
    "addChildren accepts
       ([a, bucket_id (deploymentBucket (envName_of props) (stack_account props)),
         b, c, d, e, f, g]
        @ map output_id (outputs v (envName_of props) lb bucket inst)) [] = Inr children"
    unfolding WebSocketApiStack_def Let_def
    by (auto simp del: addChildren.simps split: if_splits sum.splits)
  from addChildren_Inr [OF this] stack_ids_not_distinct show False
    by blast
qed

text \<open>
  When the library accepts every property and no existing network is requested, the raise
  is the one of the duplicate identifier.
\<close>

lemma WebSocketApiStack_duplicate:
  assumes "\<And>c. accepts c" and "existing_vpcId props = None"
  shows "WebSocketApiStack vpc_exists accepts cid props
           = Inl (DuplicateConstructId ''DeploymentBucket'')"
  using assms
  by (simp add: WebSocketApiStack_def vpc_def Let_def outputs_ids deploymentBucket_id
        addChild_def ec2Role_def grantRead_def albSecurityGroup_def ec2SecurityGroup_def
        addIngressRule_def instance'_def addTag_def alb_def addListener_def targetGroup_def
        setAttribute_def)

lemma WebSocketApiStack_lookup_failed:
  assumes "accepts cid" and "existing_vpcId props = Some vid" and "\<not> vpc_exists vid"
  shows "WebSocketApiStack vpc_exists accepts cid props = Inl (VpcLookupFailed vid)"
  using assms by (simp add: WebSocketApiStack_def vpc_def fromLookup_def Let_def)

lemma app_raises: "app vpc_exists accepts ctx process_env \<noteq> Inr s"
  unfolding app_def Let_def by (rule WebSocketApiStack_raises)

subsection \<open>The properties of each construct\<close>

lemma instance_userData_instance':
  "instance_userData (instance' v ty sg role ud envName) = ud"
  by (simp add: instance'_def addTag_def)

lemma targetGroup_fields:
  "attributes (targetGroup v envName inst) ''stickiness.enabled'' = Some ''true''"
  "attributes (targetGroup v envName inst) ''stickiness.type'' = Some ''lb_cookie''"
  "stickinessCookieDuration (targetGroup v envName inst) = Some (Duration_hours 1)"
  "targets (targetGroup v envName inst) =
     [\<lparr>target_instance = instance_id inst, target_port = 80\<rparr>]"
  "tg_id (targetGroup v envName inst) = ''TargetGroup''"
  "healthCheck (targetGroup v envName inst) =
     \<lparr>hc_enabled = True, hc_path = ''/health'', hc_protocol = Protocol_HTTP,
      hc_interval = Duration_seconds 30, hc_timeout = Duration_seconds 5,
      healthyThresholdCount = 2, unhealthyThresholdCount = 3, healthyHttpCodes = ''200''\<rparr>"
  by (simp_all add: targetGroup_def setAttribute_def)

lemma alb_fields:
  "listeners (alb v envName albSg tg) =
     [\<lparr>listener_id = ''HttpListener'', listener_port = 80,
       listener_protocol = ApplicationProtocol_HTTP, defaultTargetGroups = [tg_id tg]\<rparr>]"
  "alb_subnetType (alb v envName albSg tg) = PUBLIC"
  "alb_securityGroup (alb v envName albSg tg) = sg_id albSg"
  "alb_vpc (alb v envName albSg tg) = vpc_ref v"
  "internetFacing (alb v envName albSg tg) = True"
  by (simp_all add: alb_def addListener_def)

lemma instance'_fields:
  "instance_subnetType (instance' v ty sg role ud envName) = PRIVATE_WITH_EGRESS"
  "instance_securityGroup (instance' v ty sg role ud envName) = sg_id sg"
  "instance_role (instance' v ty sg role ud envName) = role_id role"
  "instance_vpc (instance' v ty sg role ud envName) = vpc_ref v"
  "instance_id (instance' v ty sg role ud envName) = ''WebSocketApiInstance''"
  by (simp_all add: instance'_def addTag_def)

lemma albSecurityGroup_fields:
  "sg_id (albSecurityGroup v envName) = ''ALBSecurityGroup''"
  "ingressRules (albSecurityGroup v envName) =
     [\<lparr>rule_peer = Peer_anyIpv4, rule_connection = Port_tcp 80,
       rule_description = ''Allow HTTP traffic from anywhere''\<rparr>,
      \<lparr>rule_peer = Peer_anyIpv4, rule_connection = Port_tcp 443,
       rule_description = ''Allow HTTPS traffic from anywhere''\<rparr>]"
  by (simp_all add: albSecurityGroup_def addIngressRule_def)

lemma ec2SecurityGroup_fields:
  "sg_id (ec2SecurityGroup v envName albSg) = ''EC2SecurityGroup''"
  "ingressRules (ec2SecurityGroup v envName albSg) =
     [\<lparr>rule_peer = Peer_securityGroup (sg_id albSg), rule_connection = Port_tcp 80,
       rule_description = ''Allow traffic from ALB''\<rparr>,
      \<lparr>rule_peer = Peer_securityGroup (sg_id albSg), rule_connection = Port_tcp 5000,
       rule_description = ''Allow traffic from ALB to app port''\<rparr>]"
  by (simp_all add: ec2SecurityGroup_def addIngressRule_def)

lemma ec2Role_fields:
  "role_id (ec2Role envName bucket) = ''EC2Role''"
  "managedPolicies (ec2Role envName bucket) =
     [fromAwsManagedPolicyName ''AmazonSSMManagedInstanceCore'',
      fromAwsManagedPolicyName ''CloudWatchAgentServerPolicy'']"
  "bucketGrants (ec2Role envName bucket) = [(READ, bucket_id bucket)]"
  by (simp_all add: ec2Role_def grantRead_def)

subsection \<open>The script depends on the environment name through one comparison\<close>

lemma userData_not_prod: "envName \<noteq> ''prod'' \<Longrightarrow> userData envName = userData ''dev''"
  by (simp add: userData_def)

lemma nginx_site_not_prod:
  assumes "envName \<noteq> ''prod''"
  shows "nginx_site envName = nginx_site ''dev''"
  unfolding nginx_site_def by (simp only: userData_not_prod [OF assms])

lemma systemd_unit_not_prod:
  assumes "envName \<noteq> ''prod''"
  shows "systemd_unit envName = systemd_unit ''dev''"
  unfolding systemd_unit_def by (simp only: userData_not_prod [OF assms])

subsection \<open>The read timeout of the long-lived-connection route\<close>

lemma ws_timeout_prod:
  "directive ''proxy_read_timeout'' (location_block ''/ws'' (nginx_site ''prod'')) = [''86400'']"
  by code_simp

lemma ws_timeout_dev:
  "directive ''proxy_read_timeout'' (location_block ''/ws'' (nginx_site ''dev'')) = [''86400'']"
  by code_simp

text \<open>
  Claim C1. For every environment name, the nginx site that the generated start-up script
  writes has exactly one \<^verbatim>\<open>proxy_read_timeout\<close> directive in its \<^verbatim>\<open>location /ws\<close>
  block, and its value is \<^verbatim>\<open>86400\<close>: the timeout of the long-lived-connection route
  does not depend on the environment.
\<close>

theorem ws_route_read_timeout:
  "directive ''proxy_read_timeout'' (location_block ''/ws'' (nginx_site envName)) = [''86400'']"
proof (cases "envName = ''prod''")
  case True
  show ?thesis unfolding True by (rule ws_timeout_prod)
next
  case False
  show ?thesis by (simp only: nginx_site_not_prod [OF False] ws_timeout_dev)
qed

subsection \<open>The binding of the entry point to the instance\<close>

text \<open>
  Claim C2. For every environment name, network and instance, the target group that the
  constructor declares has stickiness enabled (\<^verbatim>\<open>stickiness.enabled\<close> is \<^verbatim>\<open>true\<close>) with
  the cookie of the load balancer as the affinity token (\<^verbatim>\<open>stickiness.type\<close> is
  \<^verbatim>\<open>lb_cookie\<close>) and a cookie duration of one hour, that is 3600 seconds; the group
  targets the instance and is the default target group of the only listener of the load
  balancer.
\<close>

theorem target_binding_stickiness:
  "attributes (targetGroup v envName inst) ''stickiness.enabled'' = Some ''true''
   \<and> attributes (targetGroup v envName inst) ''stickiness.type'' = Some ''lb_cookie''
   \<and> stickinessCookieDuration (targetGroup v envName inst) = Some (Duration_hours 1)
   \<and> map_option toSeconds (stickinessCookieDuration (targetGroup v envName inst)) = Some 3600
   \<and> map target_instance (targets (targetGroup v envName inst)) = [instance_id inst]
   \<and> map defaultTargetGroups (listeners (alb v envName albSg (targetGroup v envName inst)))
       = [[tg_id (targetGroup v envName inst)]]"
  by (simp add: targetGroup_fields alb_fields)

text \<open>
  Claim C6. For every environment name, network and instance, the health check of the
  target group that the constructor declares is enabled and probes the path
  \<^verbatim>\<open>/health\<close> every 30 seconds with a timeout of 5 seconds for each probe; 2 consecutive
  successes admit a backend and 3 consecutive failures evict it.
\<close>

theorem health_check_policy:
  "(let hc = healthCheck (targetGroup v envName inst)
    in hc_enabled hc
     \<and> hc_path hc = ''/health''
     \<and> hc_interval hc = Duration_seconds 30
     \<and> toSeconds (hc_interval hc) = 30
     \<and> hc_timeout hc = Duration_seconds 5
     \<and> toSeconds (hc_timeout hc) = 5
     \<and> healthyThresholdCount hc = 2
     \<and> unhealthyThresholdCount hc = 3)"
  unfolding targetGroup_fields(6) by simp

subsection \<open>The identity of the instance\<close>

text \<open>
  The role of the instance of the \<^verbatim>\<open>dev\<close> environment does not carry exactly the two
  capabilities "remote-session access" and "read access to the deployment bucket": the
  source also attaches the managed policy \<^verbatim>\<open>CloudWatchAgentServerPolicy\<close>.
\<close>

theorem ec2Role_two_grants_counterexample:
  "\<not> (length (capabilities (ec2Role ''dev'' (deploymentBucket ''dev'' (Lit ''123456789012'')))) = 2
      \<and> set (capabilities (ec2Role ''dev'' (deploymentBucket ''dev'' (Lit ''123456789012''))))
          = {Managed (fromAwsManagedPolicyName ''AmazonSSMManagedInstanceCore''),
             BucketGrant READ ''DeploymentBucket''})"
  by (simp add: capabilities_def ec2Role_fields)

text \<open>
  Claim C3, as amended. For every environment name and bucket, the role that the
  constructor declares for the instance carries exactly three capabilities: the managed
  policies \<^verbatim>\<open>AmazonSSMManagedInstanceCore\<close> (remote-session access) and
  \<^verbatim>\<open>CloudWatchAgentServerPolicy\<close> (the monitoring agent), and read access to the
  bucket. The only access to the bucket it is granted is read access: neither write nor
  delete. The instance is declared with this role.
\<close>

theorem ec2Role_grants:
  "capabilities (ec2Role envName bucket) =
     [Managed (fromAwsManagedPolicyName ''AmazonSSMManagedInstanceCore''),
      Managed (fromAwsManagedPolicyName ''CloudWatchAgentServerPolicy''),
      BucketGrant READ (bucket_id bucket)]
   \<and> instance_role (instance' v ty sg (ec2Role envName bucket) ud envName)
       = role_id (ec2Role envName bucket)"
  by (simp add: capabilities_def ec2Role_fields instance'_fields)

subsection \<open>Permission edges and placement\<close>

text \<open>
  Claim C4. For every environment name and network, every inbound rule of the security
  group that the constructor declares for the instance has the security group of the load
  balancer as its source, never any address (and the group has inbound rules); the
  security group of the load balancer has an inbound rule from any IPv4 address for port
  80 and one for port 443. The instance and the load balancer are declared with these two
  groups.
\<close>

theorem permission_edges:
  "(\<forall>r \<in> set (ingressRules (ec2SecurityGroup v envName (albSecurityGroup v envName))).
      rule_peer r = Peer_securityGroup (sg_id (albSecurityGroup v envName))
      \<and> rule_peer r \<noteq> Peer_anyIpv4)
   \<and> ingressRules (ec2SecurityGroup v envName (albSecurityGroup v envName)) \<noteq> []
   \<and> (\<exists>r \<in> set (ingressRules (albSecurityGroup v envName)).
        rule_peer r = Peer_anyIpv4 \<and> rule_connection r = Port_tcp 80)
   \<and> (\<exists>r \<in> set (ingressRules (albSecurityGroup v envName)).
        rule_peer r = Peer_anyIpv4 \<and> rule_connection r = Port_tcp 443)
   \<and> instance_securityGroup
        (instance' v ty (ec2SecurityGroup v envName (albSecurityGroup v envName)) role ud
           envName)
       = sg_id (ec2SecurityGroup v envName (albSecurityGroup v envName))
   \<and> alb_securityGroup (alb v envName (albSecurityGroup v envName) tg)
       = sg_id (albSecurityGroup v envName)"
  by (simp add: ec2SecurityGroup_fields albSecurityGroup_fields instance'_fields alb_fields)

theorem permission_edges_witness:
  "rule_peer
     (ingressRules
        (ec2SecurityGroup (ImportedVpc ''ExistingVPC'' ''vpc-0abc'') ''prod''
           (albSecurityGroup (ImportedVpc ''ExistingVPC'' ''vpc-0abc'') ''prod'')) ! 1)
   = Peer_securityGroup ''ALBSecurityGroup''"
proof -
  let ?v = "ImportedVpc ''ExistingVPC'' ''vpc-0abc''"
  let ?rules = "ingressRules (ec2SecurityGroup ?v ''prod'' (albSecurityGroup ?v ''prod''))"
  have m: "?rules ! 1 \<in> set ?rules"
    by (simp add: ec2SecurityGroup_fields)
  have "rule_peer (?rules ! 1) = Peer_securityGroup (sg_id (albSecurityGroup ?v ''prod''))"
    by (rule permission_edges [THEN conjunct1, THEN bspec, OF m, THEN conjunct1])
  then show ?thesis
    by (simp only: albSecurityGroup_fields(1))
qed

text \<open>
  Claim C5. For every environment name and network, the instance that the constructor
  declares is placed in the subnets of type \<^verbatim>\<open>PRIVATE_WITH_EGRESS\<close>, never in the
  public ones, and the load balancer in the subnets of type \<^verbatim>\<open>PUBLIC\<close>, both of the
  network of the stack.
\<close>

theorem subnet_placement:
  "instance_subnetType (instance' v ty sg role ud envName) = PRIVATE_WITH_EGRESS
   \<and> instance_subnetType (instance' v ty sg role ud envName) \<noteq> PUBLIC
   \<and> alb_subnetType (alb v envName albSg tg) = PUBLIC
   \<and> instance_vpc (instance' v ty sg role ud envName) = vpc_ref v
   \<and> alb_vpc (alb v envName albSg tg) = vpc_ref v"
  by (simp add: instance'_fields alb_fields)

subsection \<open>The supervision unit and the host configuration\<close>

lemma restart_prod:
  "unit_values ''Restart'' (systemd_unit ''prod'') = [''always'']
   \<and> unit_values ''RestartSec'' (systemd_unit ''prod'') = [''10'']"
  by code_simp

lemma restart_dev:
  "unit_values ''Restart'' (systemd_unit ''dev'') = [''always'']
   \<and> unit_values ''RestartSec'' (systemd_unit ''dev'') = [''10'']"
  by code_simp

text \<open>
  Claim C7. For every environment name, the systemd unit that the generated start-up
  script writes has one \<^verbatim>\<open>Restart\<close> setting, \<^verbatim>\<open>always\<close> (restart on any exit), and one
  \<^verbatim>\<open>RestartSec\<close> setting, the delay \<^verbatim>\<open>10\<close>: neither depends on the environment.
\<close>

theorem supervision_restart_policy:
  "unit_values ''Restart'' (systemd_unit envName) = [''always'']
   \<and> unit_values ''RestartSec'' (systemd_unit envName) = [''10'']"
proof (cases "envName = ''prod''")
  case True
  show ?thesis unfolding True by (rule restart_prod)
next
  case False
  show ?thesis unfolding systemd_unit_not_prod [OF False] by (rule restart_dev)
qed

lemma host_contract_prod: "host_contract ''Production'' (userData ''prod'')"
  by code_simp

lemma host_contract_dev: "host_contract ''Development'' (userData ''dev'')"
  by code_simp

lemma host_contract_userData:
  "host_contract (if envName = ''prod'' then ''Production'' else ''Development'')
     (userData envName)"
proof (cases "envName = ''prod''")
  case True
  show ?thesis
    unfolding True using host_contract_prod by (simp only: if_True simp_thms)
next
  case False
  show ?thesis
    unfolding userData_not_prod [OF False] using host_contract_dev
    by (simp only: False if_False)
qed

text \<open>
  Claim C8. For every environment name, the generated start-up script writes and enables
  the unit \<^verbatim>\<open>websocketapi\<close>, which starts \<^verbatim>\<open>/var/www/websocketapi/WebSocketApi.dll\<close>
  and listens on \<^verbatim>\<open>0.0.0.0:5000\<close>; its nginx site has exactly the routes \<^verbatim>\<open>/\<close>,
  \<^verbatim>\<open>/ws\<close> and \<^verbatim>\<open>/health\<close>, and switches the access log off on \<^verbatim>\<open>/health\<close> only;
  the script logs to \<^verbatim>\<open>/var/log/user-data.log\<close>; and the execution mode is
  \<^verbatim>\<open>Production\<close> exactly when the environment name is \<^verbatim>\<open>prod\<close>, and
  \<^verbatim>\<open>Development\<close> otherwise. The instance is declared with this script.
\<close>

theorem host_configuration_contract:
  "(let ud = userData envName;
        unit = heredoc ''/etc/systemd/system/websocketapi.service'' ud;
        site = heredoc ''/etc/nginx/sites-available/websocketapi'' ud
    in unit \<noteq> []
     \<and> ''systemctl enable websocketapi'' \<in> set ud
     \<and> unit_values ''ExecStart'' unit
         = [''/usr/bin/dotnet /var/www/websocketapi/WebSocketApi.dll'']
     \<and> unit_values ''Environment'' unit
         = [''ASPNETCORE_ENVIRONMENT=''
              @ (if envName = ''prod'' then ''Production'' else ''Development''),
            ''ASPNETCORE_URLS=http://0.0.0.0:5000'']
     \<and> locations site = [''/'', ''/ws'', ''/health'']
     \<and> directive ''access_log'' (location_block ''/health'' site) = [''off'']
     \<and> directive ''access_log'' (location_block ''/'' site) = []
     \<and> directive ''access_log'' (location_block ''/ws'' site) = []
     \<and> ''exec > >(tee /var/log/user-data.log)'' \<in> set ud
     \<and> instance_userData (instance' v ty sg role ud envName) = ud)"
proof -
  have "instance_userData (instance' v ty sg role (userData envName) envName)
          = userData envName"
    by (rule instance_userData_instance')
  with host_contract_userData [of envName] show ?thesis
    unfolding host_contract_def Let_def by (intro conjI) (elim conjE, assumption)+
qed

subsection \<open>A request for an existing network without its identifier\<close>

text \<open>
  When \<^verbatim>\<open>createVpc\<close> is \<^verbatim>\<open>false\<close> and \<^verbatim>\<open>vpcId\<close> is absent or empty, the constructor
  takes the branch that builds the network \<^verbatim>\<open>WebSocketVPC\<close>, without a lookup, and
  goes on as with \<^verbatim>\<open>createVpc\<close> set to \<^verbatim>\<open>true\<close>.
\<close>

lemma createVpc_false_without_vpcId_branch:
  assumes "createVpc p = Some False"
    and "vpcId p = None \<or> vpcId p = Some ''''"
  shows "vpc vpc_exists (Some p) envName =
           Inr (Vpc ''WebSocketVPC''
                  \<lparr>vpcName = ''websocket-api-vpc-'' @ envName,
                   maxAzs = 2,
                   natGateways = 1,
                   subnetConfiguration =
                     [\<lparr>cidrMask = 24, subnet_name = ''Public'', subnetType = PUBLIC\<rparr>,
                      \<lparr>cidrMask = 24, subnet_name = ''Private'',
                       subnetType = PRIVATE_WITH_EGRESS\<rparr>]\<rparr>)"
    and "WebSocketApiStack vpc_exists accepts cid (Some p)
           = WebSocketApiStack vpc_exists' accepts cid (Some (p\<lparr>createVpc := Some True\<rparr>))"
proof -
  have n: "existing_vpcId (Some p) = None"
    using assms by (auto simp: existing_vpcId_def)
  have n': "existing_vpcId (Some (p\<lparr>createVpc := Some True\<rparr>)) = None"
    by (simp add: existing_vpcId_def)
  show "vpc vpc_exists (Some p) envName =
           Inr (Vpc ''WebSocketVPC''
                  \<lparr>vpcName = ''websocket-api-vpc-'' @ envName,
                   maxAzs = 2,
                   natGateways = 1,
                   subnetConfiguration =
                     [\<lparr>cidrMask = 24, subnet_name = ''Public'', subnetType = PUBLIC\<rparr>,
                      \<lparr>cidrMask = 24, subnet_name = ''Private'',
                       subnetType = PRIVATE_WITH_EGRESS\<rparr>]\<rparr>)"
    by (simp add: vpc_def n)
  show "WebSocketApiStack vpc_exists accepts cid (Some p)
           = WebSocketApiStack vpc_exists' accepts cid (Some (p\<lparr>createVpc := Some True\<rparr>))"
    by (simp add: WebSocketApiStack_def vpc_def n n' envName_of_def stack_account_def Let_def
          del: addChildren.simps cong: sum.case_cong)
qed

text \<open>
  Claim C10. With \<^verbatim>\<open>createVpc\<close> set to \<^verbatim>\<open>false\<close> and an empty \<^verbatim>\<open>vpcId\<close>, the
  composition is claimed not to fail. The constructor, given the environment \<^verbatim>\<open>dev\<close>,
  a library that accepts every property and a lookup that finds no network, raises: the
  output \<^verbatim>\<open>DeploymentBucket\<close> has the identifier of the bucket.
\<close>

theorem createVpc_false_without_vpcId_raises:
  "WebSocketApiStack (\<lambda>vid. False) (\<lambda>c. True) ''WebSocketApiStack-dev''
     (Some \<lparr>stackName = None, description = None, env = None, tags = [],
            environmentName = Some ''dev'', instanceType = None,
            createVpc = Some False, vpcId = Some ''''\<rparr>)
   = Inl (DuplicateConstructId ''DeploymentBucket'')"
  by (rule WebSocketApiStack_duplicate) (simp_all add: existing_vpcId_def)

end
